theory Spec2Isabelle
  imports Complex_Main "HOL-Library.AList"
begin

section \<open>Number model\<close>

text \<open>
  Python floats are modelled as exact reals. The one non-finite value the modelled code
  writes itself, \<^verbatim>\<open>float('inf')\<close>, is a constructor of its own; the two metrics that can
  hold it (profit factor, Sortino ratio) have type \<open>xfloat\<close>. A division whose divisor is
  zero raises \<^verbatim>\<open>ZeroDivisionError\<close> in Python and is an \<open>Inl\<close> result here;
  \<^verbatim>\<open>max([])\<close> raises \<^verbatim>\<open>ValueError\<close>. Datetimes are seconds on the real line.
\<close>

datatype xfloat = Fin real | PInf

datatype error = ZeroDivisionError | ValueError

text \<open>\<^verbatim>\<open>int(x)\<close> on a float truncates toward zero.\<close>

definition py_int :: "real \<Rightarrow> int" where
  "py_int x = (if 0 \<le> x then \<lfloor>x\<rfloor> else \<lceil>x\<rceil>)"

datatype py_val = PStr string | PNum real

section \<open>Configuration (config.py)\<close>

record RiskConfig =
  max_total_capital :: real
  max_position_size :: real
  max_daily_loss :: real
  max_concurrent_positions :: int
  max_exposure_pct :: real

record PerformanceConfig =
  rolling_window_days :: int
  min_trades_for_ranking :: int

record AllocatorConfig =
  rebalance_interval_hours :: real
  min_sharpe_ratio :: real
  performance_weight :: real
  risk_weight :: real

definition default_risk :: RiskConfig where
  "default_risk = \<lparr>max_total_capital = 200, max_position_size = 10, max_daily_loss = 20,
     max_concurrent_positions = 10, max_exposure_pct = 0.20\<rparr>"

definition default_performance :: PerformanceConfig where
  "default_performance = \<lparr>rolling_window_days = 30, min_trades_for_ranking = 5\<rparr>"

definition default_allocator :: AllocatorConfig where
  "default_allocator = \<lparr>rebalance_interval_hours = 24, min_sharpe_ratio = 0.5,
     performance_weight = 0.7, risk_weight = 0.3\<rparr>"

section \<open>Signals, positions and portfolios (strategies/base.py, paper_trader.py)\<close>

text \<open>
  Every dataclass is a record with the fields of the source. A field name that several
  classes share, or that is a constant of HOL, carries a prefix (\<open>sig_\<close>, \<open>pos_\<close>,
  \<open>m_\<close>, \<open>a_\<close>, \<open>md_\<close>, \<open>pd_\<close>).
\<close>

record Signal =
  sig_market_id :: string
  sig_side :: string
  confidence :: real
  sig_size :: real
  sig_strategy_name :: string
  timestamp :: real
  sig_metadata :: "(string \<times> py_val) list option"

datatype PositionStatus = OPEN | CLOSED | EXPIRED

record PaperPosition =
  pos_id :: string
  pos_strategy_name :: string
  market_id :: string
  ticker :: string
  side :: string
  quantity :: int
  entry_price :: real
  entry_time :: real
  entry_cost :: real
  exit_price :: "real option"
  exit_time :: "real option"
  exit_value :: "real option"
  status :: PositionStatus
  metadata :: "(string \<times> py_val) list"

definition pnl :: "PaperPosition \<Rightarrow> real" where
  "pnl p = (if status p = OPEN then 0
            else case exit_value p of Some v \<Rightarrow> v - entry_cost p | None \<Rightarrow> 0)"

text \<open>
  A Python dict keeps insertion order and has one entry per key: an association list,
  written with \<open>AList.update\<close> (replace in place, else append) and \<open>AList.delete\<close>.
\<close>

record StrategyPortfolio =
  strategy_name :: string
  initial_capital :: real
  current_capital :: real
  positions :: "(string \<times> PaperPosition) list"
  closed_positions :: "PaperPosition list"

definition open_positions :: "StrategyPortfolio \<Rightarrow> PaperPosition list" where
  "open_positions pf = filter (\<lambda>p. status p = OPEN) (map snd (positions pf))"

definition total_exposure :: "StrategyPortfolio \<Rightarrow> real" where
  "total_exposure pf = sum_list (map entry_cost (open_positions pf))"

definition available_capital :: "StrategyPortfolio \<Rightarrow> real" where
  "available_capital pf = current_capital pf - total_exposure pf"

section \<open>The paper trading engine (paper_trader.py)\<close>

record PaperTrader =
  risk_config :: RiskConfig
  portfolios :: "(string \<times> StrategyPortfolio) list"
  daily_pnl :: real

definition new_trader :: "RiskConfig \<Rightarrow> PaperTrader" where
  "new_trader rc = \<lparr>risk_config = rc, portfolios = [], daily_pnl = 0\<rparr>"

definition initialize_portfolio :: "PaperTrader \<Rightarrow> string \<Rightarrow> real \<Rightarrow> PaperTrader" where
  "initialize_portfolio t name capital =
     t\<lparr>portfolios := AList.update name
          \<lparr>strategy_name = name, initial_capital = capital, current_capital = capital,
           positions = [], closed_positions = []\<rparr> (portfolios t)\<rparr>"

definition get_portfolio :: "PaperTrader \<Rightarrow> string \<Rightarrow> StrategyPortfolio option" where
  "get_portfolio t name = map_of (portfolios t) name"

text \<open>
  \<^verbatim>\<open>execute_signal\<close> and \<^verbatim>\<open>_check_risk_limits\<close> return \<^verbatim>\<open>None\<close> / \<^verbatim>\<open>False\<close> on every
  rejection and tell the reason only through the log line they write first. The model
  keeps that line as the rejection value, one constructor per log message.
\<close>

datatype reject =
    No_portfolio_for_strategy
  | Insufficient_capital
  | Position_too_large
  | Would_exceed_max_exposure
  | Max_positions_reached
  | Daily_loss_limit_reached
  | Quantity_too_small

definition check_risk_limits :: "PaperTrader \<Rightarrow> Signal \<Rightarrow> StrategyPortfolio \<Rightarrow> reject option" where
  "check_risk_limits t signal pf =
    (if sig_size signal > available_capital pf then Some Insufficient_capital
     else if sig_size signal > max_position_size (risk_config t) then Some Position_too_large
     else let total_exposure_all = sum_list (map (\<lambda>(n, p). total_exposure p) (portfolios t));
              max_exposure = max_total_capital (risk_config t) * max_exposure_pct (risk_config t)
          in if total_exposure_all + sig_size signal > max_exposure
             then Some Would_exceed_max_exposure
     else let total_positions =
                sum_list (map (\<lambda>(n, p). int (length (open_positions p))) (portfolios t))
          in if total_positions \<ge> max_concurrent_positions (risk_config t)
             then Some Max_positions_reached
     else if daily_pnl t < - max_daily_loss (risk_config t) then Some Daily_loss_limit_reached
     else None)"

text \<open>
  The fresh \<^verbatim>\<open>uuid4\<close> string and the clock reading are inputs of the model. A position's
  metadata is the signal's dict (or a new empty one); it is a value here, which is the
  code's behaviour as long as no two positions are opened from one dict object.
\<close>

definition execute_signal ::
  "PaperTrader \<Rightarrow> Signal \<Rightarrow> real \<Rightarrow> string \<Rightarrow> real \<Rightarrow> (reject + PaperPosition) \<times> PaperTrader" where
  "execute_signal t signal market_price uuid now =
    (case map_of (portfolios t) (sig_strategy_name signal) of
       None \<Rightarrow> (Inl No_portfolio_for_strategy, t)
     | Some pf \<Rightarrow>
        (case check_risk_limits t signal pf of
           Some r \<Rightarrow> (Inl r, t)
         | None \<Rightarrow>
            let price = (if sig_side signal = ''yes'' then market_price else 1 - market_price);
                qty = (if price > 0 then py_int (sig_size signal / price) else 0)
            in if qty \<le> 0 then (Inl Quantity_too_small, t)
               else
                 let position = \<lparr>pos_id = uuid,
                       pos_strategy_name = sig_strategy_name signal,
                       market_id = sig_market_id signal,
                       ticker = sig_market_id signal,
                       side = sig_side signal,
                       quantity = qty,
                       entry_price = price,
                       entry_time = now,
                       entry_cost = real_of_int qty * price,
                       exit_price = None, exit_time = None, exit_value = None,
                       status = OPEN,
                       metadata = (case sig_metadata signal of None \<Rightarrow> [] | Some m \<Rightarrow> m)\<rparr>
                 in (Inr position,
                     t\<lparr>portfolios := AList.update (sig_strategy_name signal)
                          (pf\<lparr>positions := AList.update uuid position (positions pf)\<rparr>)
                          (portfolios t)\<rparr>)))"

definition close_found :: "PaperPosition \<Rightarrow> real \<Rightarrow> string \<Rightarrow> real \<Rightarrow> PaperPosition" where
  "close_found position exit_px reason now =
     (let price = (if side position = ''yes'' then exit_px else 1 - exit_px)
      in position\<lparr>exit_price := Some price,
                  exit_time := Some now,
                  exit_value := Some (real_of_int (quantity position) * price),
                  status := CLOSED,
                  metadata := AList.update ''close_reason'' (PStr reason) (metadata position)\<rparr>)"

text \<open>The search loop of \<^verbatim>\<open>close_position\<close>: the first portfolio whose map holds the id.\<close>

fun close_in :: "string \<Rightarrow> real \<Rightarrow> string \<Rightarrow> real \<Rightarrow> (string \<times> StrategyPortfolio) list
    \<Rightarrow> (PaperPosition \<times> (string \<times> StrategyPortfolio) list) option" where
  "close_in position_id exit_px reason now [] = None"
| "close_in position_id exit_px reason now ((n, pf) # rest) =
     (case map_of (positions pf) position_id of
        Some position \<Rightarrow>
          let cpos = close_found position exit_px reason now
          in Some (cpos,
                   (n, pf\<lparr>current_capital := current_capital pf + pnl cpos,
                          closed_positions := closed_positions pf @ [cpos],
                          positions := AList.delete position_id (positions pf)\<rparr>) # rest)
      | None \<Rightarrow>
          (case close_in position_id exit_px reason now rest of
             None \<Rightarrow> None
           | Some (cpos, rest') \<Rightarrow> Some (cpos, (n, pf) # rest')))"

definition close_position ::
  "PaperTrader \<Rightarrow> string \<Rightarrow> real \<Rightarrow> string \<Rightarrow> real \<Rightarrow> PaperPosition option \<times> PaperTrader" where
  "close_position t position_id exit_px reason now =
     (case close_in position_id exit_px reason now (portfolios t) of
        None \<Rightarrow> (None, t)
      | Some (cpos, pfs) \<Rightarrow>
          (Some cpos, t\<lparr>portfolios := pfs, daily_pnl := daily_pnl t + pnl cpos\<rparr>))"

text \<open>
  A market snapshot is a dict; the keys the engine and the strategies read are optional
  fields (\<^verbatim>\<open>market_data.get(key)\<close> is \<open>None\<close> for a missing key). A strategy is its name
  and its exit predicate over the reduced position view and the snapshot. One call of
  \<^verbatim>\<open>check_exits\<close> reads the clock as the same instant for every position it closes.
\<close>

record MarketData =
  md_market_id :: "string option"
  yes_price :: "real option"
  close_in_hours :: "real option"

record PosDict =
  pd_entry_price :: real
  pd_side :: string
  pd_metadata :: "(string \<times> py_val) list"

record Strategy =
  name :: string
  should_exit :: "PosDict \<Rightarrow> MarketData \<Rightarrow> bool"



section \<open>Performance metrics (performance.py)\<close>

record StrategyMetrics =
  m_strategy_name :: string
  total_return :: real
  total_return_pct :: real
  sharpe_ratio :: real
  sortino_ratio :: xfloat
  max_drawdown :: real
  total_trades :: int
  winning_trades :: int
  losing_trades :: int
  win_rate :: real
  average_win :: real
  average_loss :: real
  profit_factor :: xfloat
  expectancy :: real
  average_hold_time_hours :: real
  m_current_capital :: real
  peak_capital :: real
  last_updated :: real

definition default_metrics :: "string \<Rightarrow> real \<Rightarrow> StrategyMetrics" where
  "default_metrics nm now = \<lparr>m_strategy_name = nm, total_return = 0, total_return_pct = 0,
     sharpe_ratio = 0, sortino_ratio = Fin 0, max_drawdown = 0, total_trades = 0,
     winning_trades = 0, losing_trades = 0, win_rate = 0, average_win = 0, average_loss = 0,
     profit_factor = Fin 0, expectancy = 0, average_hold_time_hours = 0,
     m_current_capital = 0, peak_capital = 0, last_updated = now\<rparr>"

text \<open>
  The tracker's state that the metrics read: its configuration and the in-memory capital
  history (\<^verbatim>\<open>record_capital_snapshot\<close> only ever appends to a list, so a stored list
  is not empty; the model still gives \<^verbatim>\<open>max\<close> of an empty list its \<^verbatim>\<open>ValueError\<close>).
  The metrics cache \<^verbatim>\<open>_metrics\<close> is written by \<^verbatim>\<open>calculate_metrics\<close> and read by no
  function modelled here; it is left out, as is the SQLite store.
\<close>

record PerformanceTracker =
  perf_config :: PerformanceConfig
  capital_history :: "(string \<times> real list) list"

definition calculate_sharpe :: "PaperPosition list \<Rightarrow> real \<Rightarrow> real \<Rightarrow> error + real" where
  "calculate_sharpe trades initial_cap risk_free_rate =
    (if length trades < 2 then Inr 0
     else if initial_cap = 0 then Inl ZeroDivisionError
     else
       let returns = map (\<lambda>t. pnl t / initial_cap) trades;
           mean_return = sum_list returns / real (length returns);
           variance = sum_list (map (\<lambda>r. (r - mean_return)\<^sup>2) returns) / real (length returns);
           std_return = (if variance > 0 then sqrt variance else 0)
       in if std_return = 0 then Inr 0
          else
            let trades_per_year = 2500;
                annualized_return = mean_return * trades_per_year;
                annualized_std = std_return * sqrt trades_per_year
            in Inr ((annualized_return - risk_free_rate) / annualized_std))"

definition calculate_sortino :: "PaperPosition list \<Rightarrow> real \<Rightarrow> real \<Rightarrow> error + xfloat" where
  "calculate_sortino trades initial_cap risk_free_rate =
    (if length trades < 2 then Inr (Fin 0)
     else if initial_cap = 0 then Inl ZeroDivisionError
     else
       let returns = map (\<lambda>t. pnl t / initial_cap) trades;
           mean_return = sum_list returns / real (length returns);
           negative_returns = filter (\<lambda>r. r < 0) returns
       in if negative_returns = [] then Inr PInf
          else
            let downside_variance = sum_list (map (\<lambda>r. r\<^sup>2) negative_returns) / real (length returns);
                downside_std = sqrt downside_variance
            in if downside_std = 0 then Inr (Fin 0)
               else
                 let trades_per_year = 2500;
                     annualized_return = mean_return * trades_per_year;
                     annualized_downside = downside_std * sqrt trades_per_year
                 in Inr (Fin ((annualized_return - risk_free_rate) / annualized_downside)))"

text \<open>The synthetic capital series rebuilt from the trades, and the peak-tracking walk.\<close>

fun capital_series :: "real \<Rightarrow> PaperPosition list \<Rightarrow> real list" where
  "capital_series capital [] = [capital]"
| "capital_series capital (trade # ts) = capital # capital_series (capital + pnl trade) ts"

definition drawdown_step :: "real \<Rightarrow> real \<times> real \<Rightarrow> real \<times> real" where
  "drawdown_step capital acc =
     (case acc of (peak, max_dd) \<Rightarrow>
        let peak' = (if capital > peak then capital else peak);
            drawdown = (if peak' > 0 then (peak' - capital) / peak' else 0)
        in (peak', max max_dd drawdown))"

definition calculate_max_drawdown :: "PerformanceTracker \<Rightarrow> string \<Rightarrow> StrategyPortfolio \<Rightarrow> real" where
  "calculate_max_drawdown tr nm pf =
    (let stored = (case map_of (capital_history tr) nm of None \<Rightarrow> [] | Some h \<Rightarrow> h);
         history = (if stored = []
                    then capital_series (initial_capital pf)
                           (sort_key (\<lambda>t. case exit_time t of Some x \<Rightarrow> x | None \<Rightarrow> entry_time t)
                              (closed_positions pf))
                    else stored)
     in if length history < 2 then 0
        else (case history of
                [] \<Rightarrow> 0
              | h0 # _ \<Rightarrow> snd (fold drawdown_step history (h0, 0)) * 100))"

definition py_max :: "real list \<Rightarrow> error + real" where
  "py_max xs = (case xs of [] \<Rightarrow> Inl ValueError | x # rest \<Rightarrow> Inr (fold max rest x))"

definition calculate_metrics ::
  "PerformanceTracker \<Rightarrow> StrategyPortfolio \<Rightarrow> real \<Rightarrow> error + StrategyMetrics" where
  "calculate_metrics tr pf now =
    (let trades = closed_positions pf;
         metrics = (default_metrics (strategy_name pf) now)\<lparr>m_current_capital := current_capital pf\<rparr>
     in if trades = [] then Inr metrics
        else if initial_capital pf = 0 then Inl ZeroDivisionError
        else
          let n = int (length trades);
              total = sum_list (map pnl trades);
              wins = filter (\<lambda>t. pnl t > 0) trades;
              losses = filter (\<lambda>t. pnl t \<le> 0) trades;
              gross_profit = (if wins \<noteq> [] then sum_list (map pnl wins) else 0);
              gross_loss = (if losses \<noteq> [] then \<bar>sum_list (map pnl losses)\<bar> else 0);
              hold_times = concat (map (\<lambda>t. case exit_time t of
                                                  Some x \<Rightarrow> [(x - entry_time t) / 3600]
                                                | None \<Rightarrow> []) trades)
          in case calculate_sharpe trades (initial_capital pf) 0.05 of
               Inl e \<Rightarrow> Inl e
             | Inr sharpe \<Rightarrow>
            (case calculate_sortino trades (initial_capital pf) 0.05 of
               Inl e \<Rightarrow> Inl e
             | Inr sortino \<Rightarrow>
            (case py_max (case map_of (capital_history tr) (strategy_name pf) of
                            None \<Rightarrow> [initial_capital pf] | Some h \<Rightarrow> h) of
               Inl e \<Rightarrow> Inl e
             | Inr peak \<Rightarrow>
                Inr (metrics\<lparr>
                  total_trades := n,
                  total_return := total,
                  total_return_pct := (total / initial_capital pf) * 100,
                  winning_trades := int (length wins),
                  losing_trades := int (length losses),
                  win_rate := (real (length wins) / real_of_int n) * 100,
                  average_win := (if wins \<noteq> [] then sum_list (map pnl wins) / real (length wins) else 0),
                  average_loss := (if losses \<noteq> [] then sum_list (map pnl losses) / real (length losses) else 0),
                  profit_factor := (if gross_loss > 0 then Fin (gross_profit / gross_loss) else PInf),
                  expectancy := total / real_of_int n,
                  average_hold_time_hours :=
                    (if hold_times \<noteq> [] then sum_list hold_times / real (length hold_times) else 0),
                  sharpe_ratio := sharpe,
                  sortino_ratio := sortino,
                  max_drawdown := calculate_max_drawdown tr (strategy_name pf) pf,
                  peak_capital := peak,
                  last_updated := now\<rparr>))))"

section \<open>The capital allocator (allocator.py)\<close>

record AllocationResult =
  a_strategy_name :: string
  a_current_capital :: real
  new_allocation :: real
  allocation_change :: real
  rank :: int
  score :: real
  reason :: string

text \<open>
  With an infinite profit factor, \<^verbatim>\<open>(inf - 1) / 2\<close> is \<^verbatim>\<open>inf\<close> and \<^verbatim>\<open>min(1, inf)\<close> is 1.
\<close>

definition calculate_strategy_score :: "AllocatorConfig \<Rightarrow> StrategyMetrics \<Rightarrow> real" where
  "calculate_strategy_score cfg metrics =
    (if total_trades metrics < 3 then 0
     else
       let sharpe_score = max 0 (min 1 (sharpe_ratio metrics / 2));
           win_rate_score = win_rate metrics / 100;
           profit_factor_score =
             (case profit_factor metrics of
                Fin pf \<Rightarrow> max 0 (min 1 ((pf - 1) / 2))
              | PInf \<Rightarrow> 1);
           drawdown_penalty = min 1 (max_drawdown metrics / 20);
           performance_score = 0.4 * sharpe_score + 0.3 * win_rate_score + 0.3 * profit_factor_score;
           sc = performance_weight cfg * performance_score - risk_weight cfg * drawdown_penalty
       in max 0 sc)"

type_synonym ranking = "string \<times> real \<times> StrategyMetrics"

fun rankings_loop :: "AllocatorConfig \<Rightarrow> PerformanceTracker \<Rightarrow> real
    \<Rightarrow> (string \<times> StrategyPortfolio) list \<Rightarrow> error + ranking list" where
  "rankings_loop cfg tr now [] = Inr []"
| "rankings_loop cfg tr now ((nm, pf) # rest) =
     (case calculate_metrics tr pf now of
        Inl e \<Rightarrow> Inl e
      | Inr metrics \<Rightarrow>
          (case rankings_loop cfg tr now rest of
             Inl e \<Rightarrow> Inl e
           | Inr rs \<Rightarrow> Inr ((nm, calculate_strategy_score cfg metrics, metrics) # rs)))"

text \<open>
  \<^verbatim>\<open>rankings.sort(key=..., reverse=True)\<close> is stable: a stable ascending sort on the
  negated score.
\<close>

definition rank_strategies :: "AllocatorConfig \<Rightarrow> PerformanceTracker \<Rightarrow> PaperTrader \<Rightarrow> real
    \<Rightarrow> error + ranking list" where
  "rank_strategies cfg tr pt now =
     (case rankings_loop cfg tr now (portfolios pt) of
        Inl e \<Rightarrow> Inl e
      | Inr rankings \<Rightarrow> Inr (sort_key (\<lambda>(nm, sc, m). - sc) rankings))"

definition enumerate1 :: "'a list \<Rightarrow> (int \<times> 'a) list" where
  "enumerate1 xs = zip [1..int (length xs)] xs"

definition current_of :: "PaperTrader \<Rightarrow> string \<Rightarrow> real" where
  "current_of pt nm = (case get_portfolio pt nm of Some p \<Rightarrow> current_capital p | None \<Rightarrow> 0)"

text \<open>Lines 131 to 145: nobody qualifies, the capital is split equally.\<close>

definition equal_allocation :: "PaperTrader \<Rightarrow> real \<Rightarrow> ranking list \<Rightarrow> AllocationResult list" where
  "equal_allocation pt total_capital rankings =
    (let per_strategy = total_capital / real (length rankings)
     in map (\<lambda>(rk, (nm, sc, metrics)).
              \<lparr>a_strategy_name = nm,
               a_current_capital = current_of pt nm,
               new_allocation = per_strategy,
               allocation_change = per_strategy - current_of pt nm,
               rank = rk, score = sc,
               reason = ''equal_allocation_no_qualified''\<rparr>)
            (enumerate1 rankings))"

text \<open>Lines 147 to 188: the proposed allocation of every qualified strategy.\<close>

definition proposed_allocations :: "PaperTrader \<Rightarrow> real \<Rightarrow> ranking list \<Rightarrow> AllocationResult list" where
  "proposed_allocations pt total_capital qualified =
    (let total_score = sum_list (map (\<lambda>(nm, sc, m). sc) qualified);
         min_allocation = (total_capital / real (length qualified)) * 0.1
     in map (\<lambda>(rk, (nm, sc, metrics)).
              let current = current_of pt nm;
                  base_allocation = (if total_score > 0 then (sc / total_score) * total_capital
                                     else total_capital / real (length qualified));
                  alloc = min (max min_allocation base_allocation) (total_capital * 0.5);
                  why = (if sc \<ge> 0.5 then ''high_performer''
                         else if sc \<ge> 0.25 then ''moderate_performer''
                         else if total_trades metrics < 5 then ''insufficient_history''
                         else ''low_performer'')
              in \<lparr>a_strategy_name = nm,
                  a_current_capital = current,
                  new_allocation = alloc,
                  allocation_change = alloc - current,
                  rank = rk, score = sc, reason = why\<rparr>)
            (enumerate1 qualified))"

text \<open>Lines 190 to 197: scale down when the proposals add up to more than the capital.\<close>

definition rescale :: "real \<Rightarrow> AllocationResult \<Rightarrow> AllocationResult" where
  "rescale scale r = r\<lparr>new_allocation := new_allocation r * scale,
                       allocation_change := new_allocation r * scale - a_current_capital r\<rparr>"

definition normalize_allocations :: "real \<Rightarrow> AllocationResult list \<Rightarrow> error + AllocationResult list" where
  "normalize_allocations total_capital results =
    (let total_allocated = sum_list (map new_allocation results)
     in if total_allocated > total_capital
        then (if total_allocated = 0 then Inl ZeroDivisionError
              else Inr (map (rescale (total_capital / total_allocated)) results))
        else Inr results)"

definition qualified_of :: "PerformanceTracker \<Rightarrow> ranking list \<Rightarrow> ranking list" where
  "qualified_of tr rankings =
     filter (\<lambda>(nm, sc, metrics). sc > 0 \<or> total_trades metrics < min_trades_for_ranking (perf_config tr))
       rankings"

text \<open>The body of \<^verbatim>\<open>calculate_allocations\<close> from the ranked list on.\<close>

definition allocations_of_rankings ::
  "PerformanceTracker \<Rightarrow> PaperTrader \<Rightarrow> real \<Rightarrow> ranking list \<Rightarrow> error + AllocationResult list" where
  "allocations_of_rankings tr pt total_capital rankings =
    (if rankings = [] then Inr []
     else if qualified_of tr rankings = [] then Inr (equal_allocation pt total_capital rankings)
     else normalize_allocations total_capital
            (proposed_allocations pt total_capital (qualified_of tr rankings)))"

definition calculate_allocations ::
  "AllocatorConfig \<Rightarrow> PerformanceTracker \<Rightarrow> PaperTrader \<Rightarrow> real \<Rightarrow> real
    \<Rightarrow> error + AllocationResult list" where
  "calculate_allocations cfg tr pt total_capital now =
    (case rank_strategies cfg tr pt now of
       Inl e \<Rightarrow> Inl e
     | Inr rankings \<Rightarrow> allocations_of_rankings tr pt total_capital rankings)"

section \<open>Runs of the ledger and the properties stated about them\<close>

text \<open>
  The ids of the positions a ledger holds: the keys of the open maps and the ids on the
  closed lists. \<^verbatim>\<open>uuid4\<close> is taken to return an id the ledger does not hold yet.
\<close>

definition open_ids :: "(string \<times> StrategyPortfolio) list \<Rightarrow> string list" where
  "open_ids pfs = concat (map (\<lambda>(n, pf). map fst (positions pf)) pfs)"

definition closed_ids :: "(string \<times> StrategyPortfolio) list \<Rightarrow> string list" where
  "closed_ids pfs = concat (map (\<lambda>(n, pf). map pos_id (closed_positions pf)) pfs)"

definition fresh_id :: "string \<Rightarrow> PaperTrader \<Rightarrow> bool" where
  "fresh_id uuid t \<longleftrightarrow>
     uuid \<notin> set (open_ids (portfolios t)) \<and> uuid \<notin> set (closed_ids (portfolios t))"

text \<open>
  The ledgers that arise: a new engine, then portfolios initialised and any sequence
  of \<^verbatim>\<open>execute_signal\<close> and \<^verbatim>\<open>close_position\<close> calls with any arguments.
\<close>

inductive reachable :: "PaperTrader \<Rightarrow> bool" where
  start: "reachable (new_trader rc)"
| init: "reachable t \<Longrightarrow> reachable (initialize_portfolio t nm capital)"
| exec: "reachable t \<Longrightarrow> fresh_id uuid t
          \<Longrightarrow> reachable (snd (execute_signal t signal market_price uuid now))"
| close: "reachable t \<Longrightarrow> reachable (snd (close_position t position_id exit_px why now))"

definition portfolio_ok :: "StrategyPortfolio \<Rightarrow> bool" where
  "portfolio_ok pf \<longleftrightarrow>
     (\<forall>(k, q) \<in> set (positions pf). pos_id q = k \<and> status q = OPEN) \<and>
     (\<forall>q \<in> set (closed_positions pf). status q = CLOSED)"

definition pfs_inv :: "(string \<times> StrategyPortfolio) list \<Rightarrow> bool" where
  "pfs_inv pfs \<longleftrightarrow>
     distinct (map fst pfs) \<and>
     (\<forall>(n, pf) \<in> set pfs. portfolio_ok pf) \<and>
     distinct (open_ids pfs) \<and> distinct (closed_ids pfs) \<and>
     set (open_ids pfs) \<inter> set (closed_ids pfs) = {}"






definition mean :: "real list \<Rightarrow> real" where
  "mean rs = sum_list rs / real (length rs)"

definition pop_std :: "real list \<Rightarrow> real" where
  "pop_std rs = sqrt (sum_list (map (\<lambda>r. (r - mean rs)\<^sup>2) rs) / real (length rs))"


section \<open>Concrete ledgers used to instantiate the theorems\<close>

definition ex_signal :: Signal where
  "ex_signal = \<lparr>sig_market_id = ''MKT'', sig_side = ''yes'', confidence = 0.8, sig_size = 5,
     sig_strategy_name = ''Momentum'', timestamp = 0, sig_metadata = None\<rparr>"

definition ex_position :: PaperPosition where
  "ex_position = \<lparr>pos_id = ''u1'', pos_strategy_name = ''Momentum'', market_id = ''MKT'',
     ticker = ''MKT'', side = ''yes'', quantity = 25, entry_price = 0.2, entry_time = 0,
     entry_cost = 5, exit_price = None, exit_time = None, exit_value = None, status = OPEN,
     metadata = []\<rparr>"

definition ex_ledger0 :: PaperTrader where
  "ex_ledger0 = initialize_portfolio (new_trader default_risk) ''Momentum'' 50"

definition ex_ledger1 :: PaperTrader where
  "ex_ledger1 = snd (execute_signal ex_ledger0 ex_signal 0.2 ''u1'' 0)"



text \<open>A closed yes-side trade of 25 contracts bought at 0.20, with a chosen P&L.\<close>

definition closed_trade :: "string \<Rightarrow> real \<Rightarrow> PaperPosition" where
  "closed_trade ident p = ex_position\<lparr>pos_id := ident, exit_price := Some ((5 + p) / 25),
     exit_time := Some 1, exit_value := Some (5 + p), status := CLOSED\<rparr>"

definition ex_tracker :: PerformanceTracker where
  "ex_tracker = \<lparr>perf_config = default_performance, capital_history = []\<rparr>"

definition portfolio_of :: "string \<Rightarrow> real \<Rightarrow> PaperPosition list \<Rightarrow> StrategyPortfolio" where
  "portfolio_of nm capital trades = \<lparr>strategy_name = nm, initial_capital = capital,
     current_capital = capital + sum_list (map pnl trades), positions = [],
     closed_positions = trades\<rparr>"

text \<open>One trade closed at its entry price: neither a win nor a loss in dollars.\<close>

definition ex_flat :: StrategyPortfolio where
  "ex_flat = portfolio_of ''Momentum'' 50 [closed_trade ''u1'' 0]"

definition ex_flat_metrics :: StrategyMetrics where
  "ex_flat_metrics = \<lparr>m_strategy_name = ''Momentum'', total_return = 0, total_return_pct = 0,
     sharpe_ratio = 0, sortino_ratio = Fin 0, max_drawdown = 0, total_trades = 1,
     winning_trades = 0, losing_trades = 1, win_rate = 0, average_win = 0, average_loss = 0,
     profit_factor = PInf, expectancy = 0, average_hold_time_hours = 1 / 3600,
     m_current_capital = 50, peak_capital = 50, last_updated = 0\<rparr>"

text \<open>Two winning trades with different returns.\<close>

definition ex_two :: StrategyPortfolio where
  "ex_two = portfolio_of ''Momentum'' 16 [closed_trade ''u1'' 3, closed_trade ''u2'' 1]"

text \<open>
  Three strategies for the allocator: two with three winning trades of one dollar each,
  one without a trade; and the metrics of the first two.
\<close>

definition ex_winner :: "string \<Rightarrow> StrategyPortfolio" where
  "ex_winner nm = portfolio_of nm 64
     [closed_trade (nm @ ''1'') 1, closed_trade (nm @ ''2'') 1, closed_trade (nm @ ''3'') 1]"

definition ex_winner_metrics :: "string \<Rightarrow> StrategyMetrics" where
  "ex_winner_metrics nm = \<lparr>m_strategy_name = nm, total_return = 3, total_return_pct = 75 / 16,
     sharpe_ratio = 0, sortino_ratio = PInf, max_drawdown = 0, total_trades = 3,
     winning_trades = 3, losing_trades = 0, win_rate = 100, average_win = 1, average_loss = 0,
     profit_factor = PInf, expectancy = 1, average_hold_time_hours = 1 / 3600,
     m_current_capital = 67, peak_capital = 64, last_updated = 0\<rparr>"


text \<open>
  The spec's rebalance example: with the weights 1 and 0, three equal wins score 0.6,
  three trades closed at their entry price score 0.3, and two trades score 0.
\<close>

definition ex_weights :: AllocatorConfig where
  "ex_weights = \<lparr>rebalance_interval_hours = 24, min_sharpe_ratio = 0.5,
     performance_weight = 1, risk_weight = 0\<rparr>"

definition ex_flat3 :: StrategyPortfolio where
  "ex_flat3 = portfolio_of ''B'' 100
     [closed_trade ''B1'' 0, closed_trade ''B2'' 0, closed_trade ''B3'' 0]"

definition ex_flat3_metrics :: StrategyMetrics where
  "ex_flat3_metrics = \<lparr>m_strategy_name = ''B'', total_return = 0, total_return_pct = 0,
     sharpe_ratio = 0, sortino_ratio = PInf, max_drawdown = 0, total_trades = 3,
     winning_trades = 0, losing_trades = 3, win_rate = 0, average_win = 0, average_loss = 0,
     profit_factor = PInf, expectancy = 0, average_hold_time_hours = 1 / 3600,
     m_current_capital = 100, peak_capital = 100, last_updated = 0\<rparr>"

definition ex_flat2 :: StrategyPortfolio where
  "ex_flat2 = portfolio_of ''C'' 100 [closed_trade ''C1'' 0, closed_trade ''C2'' 0]"

definition ex_flat2_metrics :: StrategyMetrics where
  "ex_flat2_metrics = \<lparr>m_strategy_name = ''C'', total_return = 0, total_return_pct = 0,
     sharpe_ratio = 0, sortino_ratio = PInf, max_drawdown = 0, total_trades = 2,
     winning_trades = 0, losing_trades = 2, win_rate = 0, average_win = 0, average_loss = 0,
     profit_factor = PInf, expectancy = 0, average_hold_time_hours = 1 / 3600,
     m_current_capital = 100, peak_capital = 100, last_updated = 0\<rparr>"

definition ex_rebalance :: PaperTrader where
  "ex_rebalance = \<lparr>risk_config = default_risk,
     portfolios = [(''A'', ex_winner ''A''), (''B'', ex_flat3), (''C'', ex_flat2)],
     daily_pnl = 3\<rparr>"

definition ex_rebalance_results :: "AllocationResult list" where
  "ex_rebalance_results =
    [\<lparr>a_strategy_name = ''A'', a_current_capital = 67, new_allocation = 100,
      allocation_change = 33, rank = 1, score = 0.6, reason = ''high_performer''\<rparr>,
     \<lparr>a_strategy_name = ''B'', a_current_capital = 100, new_allocation = 200 / 3,
      allocation_change = 200 / 3 - 100, rank = 2, score = 0.3, reason = ''moderate_performer''\<rparr>,
     \<lparr>a_strategy_name = ''C'', a_current_capital = 100, new_allocation = 20 / 3,
      allocation_change = 20 / 3 - 100, rank = 3, score = 0, reason = ''insufficient_history''\<rparr>]"




section \<open>Association lists and the search loop\<close>

lemma open_ids_simps [simp]:
  "open_ids [] = []"
  "open_ids ((n, pf) # pfs) = map fst (positions pf) @ open_ids pfs"
  "open_ids (xs @ ys) = open_ids xs @ open_ids ys"
  by (simp_all add: open_ids_def)

lemma closed_ids_simps [simp]:
  "closed_ids [] = []"
  "closed_ids ((n, pf) # pfs) = map pos_id (closed_positions pf) @ closed_ids pfs"
  "closed_ids (xs @ ys) = closed_ids xs @ closed_ids ys"
  by (simp_all add: closed_ids_def)


lemma close_in_Some:
  "close_in pid px r now pfs = Some (c, pfs') \<Longrightarrow>
   \<exists>pre n pf post q. pfs = pre @ (n, pf) # post \<and> pid \<notin> set (open_ids pre)
      \<and> map_of (positions pf) pid = Some q \<and> c = close_found q px r now
      \<and> pfs' = pre @ (n, pf\<lparr>current_capital := current_capital pf + pnl c,
                             closed_positions := closed_positions pf @ [c],
                             positions := AList.delete pid (positions pf)\<rparr>) # post"
proof (induction pfs arbitrary: pfs')
  case Nil
  then show ?case by simp
next
  case (Cons a pfs)
  obtain n pf where a: "a = (n, pf)" by (cases a)
  show ?case
  proof (cases "map_of (positions pf) pid")
    case None
    with Cons.prems a obtain rest' where r: "close_in pid px r now pfs = Some (c, rest')"
      and p: "pfs' = (n, pf) # rest'"
      by (auto split: option.splits)
    from Cons.IH[OF r] obtain pre n' pf' post q where
      h: "pfs = pre @ (n', pf') # post" "pid \<notin> set (open_ids pre)"
         "map_of (positions pf') pid = Some q" "c = close_found q px r now"
         "rest' = pre @ (n', pf'\<lparr>current_capital := current_capital pf' + pnl c,
                             closed_positions := closed_positions pf' @ [c],
                             positions := AList.delete pid (positions pf')\<rparr>) # post"
      by blast
    from None have "pid \<notin> fst ` set (positions pf)" by (simp add: map_of_eq_None_iff)
    with h a p show ?thesis
      by (intro exI[of _ "(n, pf) # pre"] exI[of _ n'] exI[of _ pf'] exI[of _ post] exI[of _ q]) simp
  next
    case (Some q)
    with Cons.prems a show ?thesis
      by (intro exI[of _ "[]"] exI[of _ n] exI[of _ pf] exI[of _ pfs] exI[of _ q]) (auto simp: Let_def)
  qed
qed

lemma update_split:
  "map_of pfs k = Some v \<Longrightarrow>
   \<exists>pre post. pfs = pre @ (k, v) # post \<and> k \<notin> fst ` set pre
      \<and> AList.update k v' pfs = pre @ (k, v') # post"
proof (induction pfs)
  case Nil
  then show ?case by simp
next
  case (Cons a pfs)
  show ?case
  proof (cases "fst a = k")
    case True
    with Cons.prems have "a = (k, v)" by (cases a) auto
    with True show ?thesis by (intro exI[of _ "[]"] exI[of _ pfs]) simp
  next
    case False
    with Cons.prems have "map_of pfs k = Some v" by (cases a) auto
    from Cons.IH[OF this] obtain pre post where
      "pfs = pre @ (k, v) # post" "k \<notin> fst ` set pre" "AList.update k v' pfs = pre @ (k, v') # post"
      by blast
    with False show ?thesis by (intro exI[of _ "a # pre"] exI[of _ post]) simp
  qed
qed



lemma pfs_inv_replace:
  assumes inv: "pfs_inv (pre @ (n, pf) # post)"
    and ok: "portfolio_ok pf'"
    and d1: "distinct (map fst (positions pf'))"
    and d2: "distinct (map pos_id (closed_positions pf'))"
    and d3: "fst ` set (positions pf') \<inter> pos_id ` set (closed_positions pf') = {}"
    and sub: "fst ` set (positions pf') \<union> pos_id ` set (closed_positions pf')
              \<subseteq> fst ` set (positions pf) \<union> pos_id ` set (closed_positions pf) \<union> X"
    and X: "X \<inter> (set (open_ids (pre @ post)) \<union> set (closed_ids (pre @ post))) = {}"
  shows "pfs_inv (pre @ (n, pf') # post)"
proof -
  let ?O = "fst ` set (positions pf)" and ?C = "pos_id ` set (closed_positions pf)"
  let ?O' = "fst ` set (positions pf')" and ?C' = "pos_id ` set (closed_positions pf')"
  let ?R = "set (open_ids pre) \<union> set (open_ids post) \<union> set (closed_ids pre) \<union> set (closed_ids post)"
  from inv have names: "distinct (map fst (pre @ (n, pf') # post))"
    by (simp add: pfs_inv_def)
  from inv ok have oks: "\<forall>(m, p) \<in> set (pre @ (n, pf') # post). portfolio_ok p"
    by (auto simp: pfs_inv_def)
  from inv have old: "(?O \<union> ?C) \<inter> ?R = {}"
    unfolding pfs_inv_def by (simp add: Int_Un_distrib Int_Un_distrib2 Int_commute; blast)
  from X have Xd: "X \<inter> ?R = {}" by (simp add: Un_assoc) 
  from sub old Xd have new: "(?O' \<union> ?C') \<inter> ?R = {}" by blast
  from inv have rest: "distinct (open_ids pre)" "distinct (open_ids post)"
      "distinct (closed_ids pre)" "distinct (closed_ids post)"
      "set (open_ids pre) \<inter> set (open_ids post) = {}"
      "set (closed_ids pre) \<inter> set (closed_ids post) = {}"
      "set (open_ids pre) \<inter> set (closed_ids pre) = {}"
      "set (open_ids pre) \<inter> set (closed_ids post) = {}"
      "set (open_ids post) \<inter> set (closed_ids pre) = {}"
      "set (open_ids post) \<inter> set (closed_ids post) = {}"
    unfolding pfs_inv_def by (simp_all add: Int_Un_distrib Int_Un_distrib2) 
  have o: "distinct (open_ids (pre @ (n, pf') # post))"
    using d1 rest new by (simp add: Int_Un_distrib Int_Un_distrib2 Int_commute; blast)
  have c: "distinct (closed_ids (pre @ (n, pf') # post))"
    using d2 rest new by (simp add: Int_Un_distrib Int_Un_distrib2 Int_commute; blast)
  have oc: "set (open_ids (pre @ (n, pf') # post)) \<inter> set (closed_ids (pre @ (n, pf') # post)) = {}"
    using d3 rest new by (simp add: Int_Un_distrib Int_Un_distrib2 Int_commute; blast)
  from names oks o c oc show ?thesis unfolding pfs_inv_def by blast
qed


lemma update_append: "map_of pfs k = None \<Longrightarrow> AList.update k v pfs = pfs @ [(k, v)]"
  by (induction pfs) (auto split: if_splits)

lemma close_found_fields [simp]:
  "pos_id (close_found q px r now) = pos_id q"
  "status (close_found q px r now) = CLOSED"
  "quantity (close_found q px r now) = quantity q"
  "entry_cost (close_found q px r now) = entry_cost q"
  by (simp_all add: close_found_def Let_def)

lemma close_in_inv:
  assumes inv: "pfs_inv pfs" and cl: "close_in pid px r now pfs = Some (c, pfs')"
  shows "pfs_inv pfs'"
proof -
  from close_in_Some[OF cl] obtain pre n pf post q where
    h: "pfs = pre @ (n, pf) # post" "pid \<notin> set (open_ids pre)"
       "map_of (positions pf) pid = Some q" "c = close_found q px r now"
       "pfs' = pre @ (n, pf\<lparr>current_capital := current_capital pf + pnl c,
                             closed_positions := closed_positions pf @ [c],
                             positions := AList.delete pid (positions pf)\<rparr>) # post"
    by blast
  let ?pf' = "pf\<lparr>current_capital := current_capital pf + pnl c,
                 closed_positions := closed_positions pf @ [c],
                 positions := AList.delete pid (positions pf)\<rparr>"
  from h(3) have mem: "(pid, q) \<in> set (positions pf)" by (rule map_of_SomeD)
  from inv h(1) have okpf: "portfolio_ok pf" by (auto simp: pfs_inv_def)
  with mem have idq: "pos_id q = pid" by (auto simp: portfolio_ok_def)
  from inv h(1) have dk: "distinct (map fst (positions pf))"
    and dc: "distinct (map pos_id (closed_positions pf))"
    and dj: "fst ` set (positions pf) \<inter> pos_id ` set (closed_positions pf) = {}"
    by (auto simp: pfs_inv_def)
  from mem have pin: "pid \<in> fst ` set (positions pf)" by force
  with dj have pnc: "pid \<notin> pos_id ` set (closed_positions pf)" by blast
  have ok': "portfolio_ok ?pf'"
    using okpf h(4) by (auto simp: portfolio_ok_def AList.delete_eq)
  have d1: "distinct (map fst (positions ?pf'))"
    using dk by (simp add: AList.distinct_delete)
  have d2: "distinct (map pos_id (closed_positions ?pf'))"
    using dc pnc h(4) idq by simp
  have d3: "fst ` set (positions ?pf') \<inter> pos_id ` set (closed_positions ?pf') = {}"
    using dj h(4) idq by (auto simp: AList.delete_eq)
  have sub: "fst ` set (positions ?pf') \<union> pos_id ` set (closed_positions ?pf')
              \<subseteq> fst ` set (positions pf) \<union> pos_id ` set (closed_positions pf) \<union> {}"
    using pin h(4) idq by (auto simp: AList.delete_eq)
  from pfs_inv_replace[OF inv[unfolded h(1)] ok' d1 d2 d3 sub] h(5) show ?thesis by simp
qed

lemma close_position_inv:
  "pfs_inv (portfolios t) \<Longrightarrow> pfs_inv (portfolios (snd (close_position t pid px r now)))"
  by (auto simp: close_position_def split: option.splits dest: close_in_inv)

lemma execute_signal_cases:
  "execute_signal t signal px uuid now = (res, t') \<Longrightarrow>
   (\<exists>r. res = Inl r \<and> t' = t) \<or>
   (\<exists>pf pos. res = Inr pos \<and> map_of (portfolios t) (sig_strategy_name signal) = Some pf
      \<and> pos_id pos = uuid \<and> status pos = OPEN
      \<and> t' = t\<lparr>portfolios := AList.update (sig_strategy_name signal)
                  (pf\<lparr>positions := AList.update uuid pos (positions pf)\<rparr>) (portfolios t)\<rparr>)"
  by (auto simp: execute_signal_def Let_def split: option.splits if_splits)

lemma execute_signal_inv:
  assumes inv: "pfs_inv (portfolios t)" and fr: "fresh_id uuid t"
  shows "pfs_inv (portfolios (snd (execute_signal t signal px uuid now)))"
proof -
  obtain res t' where e: "execute_signal t signal px uuid now = (res, t')" by (cases "execute_signal t signal px uuid now")
  from execute_signal_cases[OF e] show ?thesis
  proof (elim disjE exE conjE)
    fix r assume "t' = t" with inv e show ?thesis by simp
  next
    fix pf pos
    assume h: "map_of (portfolios t) (sig_strategy_name signal) = Some pf"
       "pos_id pos = uuid" "status pos = OPEN"
       "t' = t\<lparr>portfolios := AList.update (sig_strategy_name signal)
                  (pf\<lparr>positions := AList.update uuid pos (positions pf)\<rparr>) (portfolios t)\<rparr>"
    let ?pf' = "pf\<lparr>positions := AList.update uuid pos (positions pf)\<rparr>"
    from update_split[OF h(1), of ?pf'] obtain pre post where
      sp: "portfolios t = pre @ (sig_strategy_name signal, pf) # post"
          "AList.update (sig_strategy_name signal) ?pf' (portfolios t)
             = pre @ (sig_strategy_name signal, ?pf') # post"
      by blast
    from fr sp(1) have nk: "uuid \<notin> fst ` set (positions pf)"
      and nc: "uuid \<notin> pos_id ` set (closed_positions pf)"
      and X: "{uuid} \<inter> (set (open_ids (pre @ post)) \<union> set (closed_ids (pre @ post))) = {}"
      by (auto simp: fresh_id_def)
    from inv sp(1) have okpf: "portfolio_ok pf" and dk: "distinct (map fst (positions pf))"
      and dc: "distinct (map pos_id (closed_positions pf))"
      and dj: "fst ` set (positions pf) \<inter> pos_id ` set (closed_positions pf) = {}"
      by (auto simp: pfs_inv_def)
    from nk have upd: "AList.update uuid pos (positions pf) = positions pf @ [(uuid, pos)]"
      by (intro update_append) (simp add: map_of_eq_None_iff)
    have ok': "portfolio_ok ?pf'" using okpf h(2,3) by (auto simp: portfolio_ok_def upd)
    have d1: "distinct (map fst (positions ?pf'))" using dk nk by (simp add: upd)
    have d2: "distinct (map pos_id (closed_positions ?pf'))" using dc by simp
    have d3: "fst ` set (positions ?pf') \<inter> pos_id ` set (closed_positions ?pf') = {}"
      using dj nc by (auto simp: upd)
    have sub: "fst ` set (positions ?pf') \<union> pos_id ` set (closed_positions ?pf')
              \<subseteq> fst ` set (positions pf) \<union> pos_id ` set (closed_positions pf) \<union> {uuid}"
      by (auto simp: upd)
    from pfs_inv_replace[OF inv[unfolded sp(1)] ok' d1 d2 d3 sub X] sp(2) h(4) e
    show ?thesis by simp
  qed
qed

lemma initialize_portfolio_inv:
  assumes inv: "pfs_inv (portfolios t)"
  shows "pfs_inv (portfolios (initialize_portfolio t nm capital))"
proof (cases "map_of (portfolios t) nm")
  case None
  then have "nm \<notin> fst ` set (portfolios t)" by (simp add: map_of_eq_None_iff)
  with inv None show ?thesis
    by (auto simp: initialize_portfolio_def update_append pfs_inv_def portfolio_ok_def)
next
  case (Some pf)
  let ?pf' = "\<lparr>strategy_name = nm, initial_capital = capital, current_capital = capital,
           positions = [], closed_positions = []\<rparr>"
  from update_split[OF Some, of ?pf'] obtain pre post where
    sp: "portfolios t = pre @ (nm, pf) # post"
        "AList.update nm ?pf' (portfolios t) = pre @ (nm, ?pf') # post"
    by blast
  have "pfs_inv (pre @ (nm, ?pf') # post)"
    by (rule pfs_inv_replace[OF inv[unfolded sp(1)], where X = "{}"])
       (simp_all add: portfolio_ok_def)
  with sp(2) show ?thesis by (simp add: initialize_portfolio_def)
qed

lemma reachable_inv: "reachable t \<Longrightarrow> pfs_inv (portfolios t)"
proof (induction rule: reachable.induct)
  case (start rc)
  show ?case by (simp add: new_trader_def pfs_inv_def)
next
  case (init t nm capital)
  then show ?case by (simp add: initialize_portfolio_inv)
next
  case (exec t uuid signal market_price now)
  then show ?case by (simp add: execute_signal_inv)
next
  case (close t position_id exit_px why now)
  then show ?case by (simp add: close_position_inv)
qed


lemma ex_ledger0_eq:
  "ex_ledger0 = \<lparr>risk_config = default_risk,
     portfolios = [(''Momentum'', \<lparr>strategy_name = ''Momentum'', initial_capital = 50,
        current_capital = 50, positions = [], closed_positions = []\<rparr>)], daily_pnl = 0\<rparr>"
  by (simp add: ex_ledger0_def initialize_portfolio_def new_trader_def)

lemma ex_execute:
  "execute_signal ex_ledger0 ex_signal 0.2 ''u1'' 0 =
     (Inr ex_position, \<lparr>risk_config = default_risk,
     portfolios = [(''Momentum'', \<lparr>strategy_name = ''Momentum'', initial_capital = 50,
        current_capital = 50, positions = [(''u1'', ex_position)], closed_positions = []\<rparr>)],
     daily_pnl = 0\<rparr>)"
  by (simp add: ex_ledger0_eq execute_signal_def check_risk_limits_def available_capital_def
        total_exposure_def open_positions_def ex_signal_def default_risk_def py_int_def
        ex_position_def Let_def)


lemma ex_ledger1_eq:
  "ex_ledger1 = \<lparr>risk_config = default_risk,
     portfolios = [(''Momentum'', \<lparr>strategy_name = ''Momentum'', initial_capital = 50,
        current_capital = 50, positions = [(''u1'', ex_position)], closed_positions = []\<rparr>)],
     daily_pnl = 0\<rparr>"
  by (simp only: ex_ledger1_def ex_execute snd_conv)

lemma ex_ledger1_reachable: "reachable ex_ledger1"
  unfolding ex_ledger1_def ex_ledger0_def
  by (intro reachable.exec reachable.init reachable.start)
     (simp add: fresh_id_def initialize_portfolio_def new_trader_def)

section \<open>Executing a signal\<close>



lemma ex_reject_small:
  "execute_signal ex_ledger0 (ex_signal\<lparr>sig_size := 0.1\<rparr>) 0.2 ''u1'' 0 = (Inl Quantity_too_small, ex_ledger0)"
  by (simp add: ex_ledger0_eq execute_signal_def check_risk_limits_def available_capital_def
        total_exposure_def open_positions_def ex_signal_def default_risk_def py_int_def
        Let_def)


section \<open>Frame and invariant properties of the ledger\<close>


lemma portfolio_ok_open: "portfolio_ok pf \<Longrightarrow> open_positions pf = map snd (positions pf)"
  unfolding open_positions_def portfolio_ok_def
  by (intro filter_True) auto

text \<open>
  Claim C5. In every ledger reached by \<^verbatim>\<open>execute_signal\<close> and \<^verbatim>\<open>close_position\<close> calls,
  every portfolio's available capital is its current capital minus the sum of the entry
  costs of its open positions, and the open positions are exactly the values of its
  position map.
\<close>

theorem available_capital_invariant:
  assumes "reachable t" and "(n, pf) \<in> set (portfolios t)"
  shows "available_capital pf = current_capital pf - sum_list (map entry_cost (open_positions pf))
         \<and> open_positions pf = map snd (positions pf)
         \<and> available_capital pf
             = current_capital pf - sum_list (map (\<lambda>(k, q). entry_cost q) (positions pf))"
proof -
  from assms have ok: "portfolio_ok pf"
    using reachable_inv[of t] by (auto simp: pfs_inv_def)
  have eq: "map (\<lambda>(k, q). entry_cost q) (positions pf) = map entry_cost (map snd (positions pf))"
    by (simp add: case_prod_unfold comp_def)
  show ?thesis
    unfolding available_capital_def total_exposure_def eq
    by (simp add: portfolio_ok_open[OF ok])
qed

theorem available_capital_invariant_witness:
  "reachable ex_ledger1
   \<and> (''Momentum'', \<lparr>strategy_name = ''Momentum'', initial_capital = 50, current_capital = 50,
        positions = [(''u1'', ex_position)], closed_positions = []\<rparr>) \<in> set (portfolios ex_ledger1)
   \<and> available_capital \<lparr>strategy_name = ''Momentum'', initial_capital = 50, current_capital = 50,
        positions = [(''u1'', ex_position)], closed_positions = []\<rparr> = 50 - 5"
proof -
  let ?pf = "\<lparr>strategy_name = ''Momentum'', initial_capital = 50, current_capital = 50,
        positions = [(''u1'', ex_position)], closed_positions = []\<rparr>"
  have m: "(''Momentum'', ?pf) \<in> set (portfolios ex_ledger1)"
    by (simp add: ex_ledger1_eq)
  from available_capital_invariant[OF ex_ledger1_reachable m]
  have "available_capital ?pf = current_capital ?pf - sum_list (map (\<lambda>(k, q). entry_cost q) (positions ?pf))"
    by blast
  then have "available_capital ?pf = 50 - 5" by (simp add: ex_position_def)
  with ex_ledger1_reachable m show ?thesis by blast
qed








section \<open>Metrics\<close>

lemma pnl_closed_trade [simp]: "pnl (closed_trade ident p) = p"
  by (simp add: closed_trade_def pnl_def ex_position_def)

lemma calculate_sharpe_spec:
  assumes ic: "ic \<noteq> 0" and n: "2 \<le> length trades"
  shows "calculate_sharpe trades ic rf =
           Inr (if pop_std (map (\<lambda>t. pnl t / ic) trades) > 0
                then (mean (map (\<lambda>t. pnl t / ic) trades) * 2500 - rf)
                       / (pop_std (map (\<lambda>t. pnl t / ic) trades) * sqrt 2500)
                else 0)"
proof -
  let ?rs = "map (\<lambda>t. pnl t / ic) trades"
  let ?v = "sum_list (map (\<lambda>r. (r - mean ?rs)\<^sup>2) ?rs) / real (length ?rs)"
  have "0 \<le> sum_list (map (\<lambda>r. (r - mean ?rs)\<^sup>2) ?rs)"
    by (rule sum_list_nonneg) auto
  then have v: "0 \<le> ?v" by simp
  have s: "(if ?v > 0 then sqrt ?v else 0) = pop_std ?rs"
    using v unfolding pop_std_def by (cases "?v = 0") auto
  have "0 \<le> pop_std ?rs" using v unfolding pop_std_def by (rule real_sqrt_ge_zero)
  then have p: "pop_std ?rs > 0 \<longleftrightarrow> pop_std ?rs \<noteq> 0" by linarith
  from ic n show ?thesis
    unfolding calculate_sharpe_def Let_def s mean_def[symmetric]
    by (simp add: p)
qed

lemma calculate_sharpe_short: "length trades < 2 \<Longrightarrow> calculate_sharpe trades ic rf = Inr 0"
  by (simp add: calculate_sharpe_def)

lemma calculate_sortino_total:
  "ic \<noteq> 0 \<Longrightarrow> \<exists>s. calculate_sortino trades ic rf = Inr s"
  by (simp add: calculate_sortino_def Let_def)

lemma calculate_sortino_inf:
  "ic \<noteq> 0 \<Longrightarrow> calculate_sortino trades ic rf = Inr PInf \<longleftrightarrow>
     2 \<le> length trades \<and> (\<forall>t \<in> set trades. \<not> pnl t / ic < 0)"
  by (auto simp: calculate_sortino_def Let_def filter_empty_conv)

lemma py_max_total: "xs \<noteq> [] \<Longrightarrow> \<exists>x. py_max xs = Inr x"
  by (cases xs) (simp_all add: py_max_def)

lemma calculate_metrics_fields:
  assumes tr: "closed_positions pf \<noteq> []" and ic: "initial_capital pf \<noteq> 0"
    and h: "map_of (capital_history tr) (strategy_name pf) \<noteq> Some []"
  shows "\<exists>m. calculate_metrics tr pf now = Inr m
    \<and> calculate_sharpe (closed_positions pf) (initial_capital pf) 0.05 = Inr (sharpe_ratio m)
    \<and> calculate_sortino (closed_positions pf) (initial_capital pf) 0.05 = Inr (sortino_ratio m)
    \<and> profit_factor m =
        (if \<bar>sum_list (map pnl (filter (\<lambda>t. pnl t \<le> 0) (closed_positions pf)))\<bar> > 0
         then Fin (sum_list (map pnl (filter (\<lambda>t. pnl t > 0) (closed_positions pf)))
                   / \<bar>sum_list (map pnl (filter (\<lambda>t. pnl t \<le> 0) (closed_positions pf)))\<bar>)
         else PInf)
    \<and> total_trades m = int (length (closed_positions pf))
    \<and> win_rate m = real (length (filter (\<lambda>t. pnl t > 0) (closed_positions pf)))
                     / real (length (closed_positions pf)) * 100
    \<and> max_drawdown m = calculate_max_drawdown tr (strategy_name pf) pf"
proof -
  obtain sh where sh: "calculate_sharpe (closed_positions pf) (initial_capital pf) (5 / 100) = Inr sh"
    using ic by (cases "length (closed_positions pf) < 2")
                (simp_all add: calculate_sharpe_short calculate_sharpe_spec)
  obtain so where so: "calculate_sortino (closed_positions pf) (initial_capital pf) (5 / 100) = Inr so"
    using calculate_sortino_total[OF ic] by blast
  have "(case map_of (capital_history tr) (strategy_name pf) of
           None \<Rightarrow> [initial_capital pf] | Some h \<Rightarrow> h) \<noteq> []"
    using h by (auto split: option.splits)
  from py_max_total[OF this] obtain pk where
    pk: "py_max (case map_of (capital_history tr) (strategy_name pf) of
           None \<Rightarrow> [initial_capital pf] | Some h \<Rightarrow> h) = Inr pk" by blast
  have gl: "\<And>ls::PaperPosition list. (if ls \<noteq> [] then \<bar>sum_list (map pnl ls)\<bar> else 0) = \<bar>sum_list (map pnl ls)\<bar>"
    by simp
  have gp: "\<And>ls::PaperPosition list. (if ls \<noteq> [] then sum_list (map pnl ls) else 0) = sum_list (map pnl ls)"
    by simp
  show ?thesis
    using tr ic sh so pk
    unfolding calculate_metrics_def Let_def gl gp
    by simp
qed









lemma nonpos_sum_zero:
  "(\<And>x. x \<in> set xs \<Longrightarrow> x \<le> (0::real)) \<Longrightarrow> sum_list xs = 0 \<longleftrightarrow> (\<forall>x \<in> set xs. x = 0)"
proof (induction xs)
  case Nil
  then show ?case by simp
next
  case (Cons a xs)
  then have a: "a \<le> 0" and s: "sum_list xs \<le> 0"
    by (auto intro: sum_list_nonpos)
  from Cons have ih: "sum_list xs = 0 \<longleftrightarrow> (\<forall>x \<in> set xs. x = 0)" by simp
  from a s have "a + sum_list xs = 0 \<longleftrightarrow> a = 0 \<and> sum_list xs = 0" by linarith
  with ih show ?case by simp
qed

lemma gross_loss_zero:
  "\<bar>sum_list (map pnl (filter (\<lambda>t. pnl t \<le> 0) ts))\<bar> > 0 \<longleftrightarrow> (\<exists>t \<in> set ts. pnl t < 0)"
proof -
  have "sum_list (map pnl (filter (\<lambda>t. pnl t \<le> 0) ts)) = 0
        \<longleftrightarrow> (\<forall>x \<in> set (map pnl (filter (\<lambda>t. pnl t \<le> 0) ts)). x = 0)"
    by (rule nonpos_sum_zero) auto
  also have "\<dots> \<longleftrightarrow> \<not> (\<exists>t \<in> set ts. pnl t < 0)" by auto
  finally show ?thesis by auto
qed

text \<open>
  Claim C1 (as amended). For a portfolio with at least one closed trade and a non-zero
  initial capital the metrics are computed, the profit factor is infinite exactly when
  no closed trade has a negative P&L (winning trade or not), and the Sortino ratio is
  infinite exactly when there are at least two closed trades and none of them has a
  negative per-trade return.
\<close>

theorem infinite_ratios:
  assumes "closed_positions pf \<noteq> []" and "initial_capital pf \<noteq> 0"
    and "map_of (capital_history tr) (strategy_name pf) \<noteq> Some []"
  shows "\<exists>m. calculate_metrics tr pf now = Inr m
    \<and> (profit_factor m = PInf \<longleftrightarrow> (\<forall>t \<in> set (closed_positions pf). \<not> pnl t < 0))
    \<and> (sortino_ratio m = PInf \<longleftrightarrow>
          2 \<le> length (closed_positions pf)
          \<and> (\<forall>t \<in> set (closed_positions pf). \<not> pnl t / initial_capital pf < 0))"
proof -
  from calculate_metrics_fields[OF assms] obtain m where
    m: "calculate_metrics tr pf now = Inr m"
    and so: "calculate_sortino (closed_positions pf) (initial_capital pf) 0.05 = Inr (sortino_ratio m)"
    and pf: "profit_factor m =
        (if \<bar>sum_list (map pnl (filter (\<lambda>t. pnl t \<le> 0) (closed_positions pf)))\<bar> > 0
         then Fin (sum_list (map pnl (filter (\<lambda>t. pnl t > 0) (closed_positions pf)))
                   / \<bar>sum_list (map pnl (filter (\<lambda>t. pnl t \<le> 0) (closed_positions pf)))\<bar>)
         else PInf)"
    by blast
  from pf have p: "profit_factor m = PInf \<longleftrightarrow> (\<forall>t \<in> set (closed_positions pf). \<not> pnl t < 0)"
    unfolding gross_loss_zero by auto
  from so calculate_sortino_inf[OF assms(2), of "closed_positions pf" "0.05"]
  have s: "sortino_ratio m = PInf \<longleftrightarrow>
          2 \<le> length (closed_positions pf)
          \<and> (\<forall>t \<in> set (closed_positions pf). \<not> pnl t / initial_capital pf < 0)"
    by auto
  from m p s show ?thesis by blast
qed

theorem infinite_ratios_witness:
  "closed_positions ex_two = [closed_trade ''u1'' 3, closed_trade ''u2'' 1]
   \<and> initial_capital ex_two = 16
   \<and> map_of (capital_history ex_tracker) (strategy_name ex_two) = None
   \<and> (\<exists>m. calculate_metrics ex_tracker ex_two 0 = Inr m
         \<and> profit_factor m = PInf \<and> sortino_ratio m = PInf)"
proof -
  have a: "closed_positions ex_two = [closed_trade ''u1'' 3, closed_trade ''u2'' 1]"
      "initial_capital ex_two = 16"
    by (simp_all add: ex_two_def portfolio_of_def)
  have h: "map_of (capital_history ex_tracker) (strategy_name ex_two) = None"
    by (simp add: ex_tracker_def)
  from infinite_ratios[of ex_two ex_tracker 0] a h
  obtain m where "calculate_metrics ex_tracker ex_two 0 = Inr m"
    "profit_factor m = PInf" "sortino_ratio m = PInf"
    by auto
  with a h show ?thesis by blast
qed

text \<open>
  Claim C1 as stated fails on one trade closed at its entry price: the profit factor is
  infinite although there is no winning trade.
\<close>

theorem infinite_ratios_counterexample:
  "calculate_metrics ex_tracker ex_flat 0 = Inr ex_flat_metrics
   \<and> profit_factor ex_flat_metrics = PInf
   \<and> winning_trades ex_flat_metrics = 0
   \<and> map pnl (closed_positions ex_flat) = [0]"
  by (simp add: calculate_metrics_def ex_flat_def portfolio_of_def ex_tracker_def
        ex_flat_metrics_def default_metrics_def calculate_sharpe_def calculate_sortino_def
        calculate_max_drawdown_def py_max_def drawdown_step_def Let_def
        closed_trade_def ex_position_def pnl_def)

section \<open>Allocations\<close>

lemma ex_winner_metrics_eq:
  "calculate_metrics ex_tracker (ex_winner nm) 0 = Inr (ex_winner_metrics nm)"
  by (simp add: calculate_metrics_def ex_winner_def portfolio_of_def ex_tracker_def
        ex_winner_metrics_def default_metrics_def calculate_sharpe_def calculate_sortino_def
        calculate_max_drawdown_def py_max_def drawdown_step_def Let_def
        closed_trade_def ex_position_def pnl_def)

lemma ex_flat3_metrics_eq:
  "calculate_metrics ex_tracker ex_flat3 0 = Inr ex_flat3_metrics"
  by (simp add: calculate_metrics_def ex_flat3_def portfolio_of_def ex_tracker_def
        ex_flat3_metrics_def default_metrics_def calculate_sharpe_def calculate_sortino_def
        calculate_max_drawdown_def py_max_def drawdown_step_def Let_def
        closed_trade_def ex_position_def pnl_def)

lemma ex_flat2_metrics_eq:
  "calculate_metrics ex_tracker ex_flat2 0 = Inr ex_flat2_metrics"
  by (simp add: calculate_metrics_def ex_flat2_def portfolio_of_def ex_tracker_def
        ex_flat2_metrics_def default_metrics_def calculate_sharpe_def calculate_sortino_def
        calculate_max_drawdown_def py_max_def drawdown_step_def Let_def
        closed_trade_def ex_position_def pnl_def)

lemma ex_scores:
  "calculate_strategy_score ex_weights (ex_winner_metrics nm) = 0.6"
  "calculate_strategy_score ex_weights ex_flat3_metrics = 0.3"
  "calculate_strategy_score ex_weights ex_flat2_metrics = 0"
  "calculate_strategy_score default_allocator (ex_winner_metrics nm) = 0.42"
  by (simp_all add: calculate_strategy_score_def ex_weights_def default_allocator_def
        ex_winner_metrics_def ex_flat3_metrics_def ex_flat2_metrics_def)

lemma ex_rebalance_rankings:
  "rank_strategies ex_weights ex_tracker ex_rebalance 0 =
     Inr [(''A'', 0.6, ex_winner_metrics ''A''), (''B'', 0.3, ex_flat3_metrics),
          (''C'', 0, ex_flat2_metrics)]"
  by (simp add: rank_strategies_def ex_rebalance_def ex_winner_metrics_eq ex_flat3_metrics_eq
        ex_flat2_metrics_eq ex_scores)


lemma length_enumerate1 [simp]: "length (enumerate1 xs) = length xs"
  by (simp add: enumerate1_def)

lemma map_snd_enumerate1 [simp]: "map snd (enumerate1 xs) = xs"
  by (simp add: enumerate1_def)

lemma enumerate1_3: "enumerate1 [a, b, c] = [(1, a), (2, b), (3, c)]"
  by (simp add: enumerate1_def upto_rec1)

lemma new_allocation_rescale [simp]: "new_allocation (rescale c r) = new_allocation r * c"
  by (simp add: rescale_def)



















lemma rebalance_core:
  assumes "total_trades m3 = 2" and "min_trades_for_ranking (perf_config tr) = 5"
  shows "allocations_of_rankings tr pt 200 [(n1, 0.6, m1), (n2, 0.3, m2), (n3, 0, m3)] =
     Inr [\<lparr>a_strategy_name = n1, a_current_capital = current_of pt n1, new_allocation = 100,
       allocation_change = 100 - current_of pt n1, rank = 1, score = 0.6,
       reason = ''high_performer''\<rparr>,
      \<lparr>a_strategy_name = n2, a_current_capital = current_of pt n2, new_allocation = 200 / 3,
       allocation_change = 200 / 3 - current_of pt n2, rank = 2, score = 0.3,
       reason = ''moderate_performer''\<rparr>,
      \<lparr>a_strategy_name = n3, a_current_capital = current_of pt n3, new_allocation = 20 / 3,
       allocation_change = 20 / 3 - current_of pt n3, rank = 3, score = 0,
       reason = ''insufficient_history''\<rparr>]"
proof -
  let ?rk = "[(n1, 0.6, m1), (n2, 0.3, m2), (n3, 0, m3)] :: ranking list"
  have q: "qualified_of tr ?rk = ?rk"
    using assms by (simp add: qualified_of_def)
  have p: "proposed_allocations pt 200 ?rk =
     [\<lparr>a_strategy_name = n1, a_current_capital = current_of pt n1, new_allocation = 100,
       allocation_change = 100 - current_of pt n1, rank = 1, score = 0.6,
       reason = ''high_performer''\<rparr>,
      \<lparr>a_strategy_name = n2, a_current_capital = current_of pt n2, new_allocation = 200 / 3,
       allocation_change = 200 / 3 - current_of pt n2, rank = 2, score = 0.3,
       reason = ''moderate_performer''\<rparr>,
      \<lparr>a_strategy_name = n3, a_current_capital = current_of pt n3, new_allocation = 20 / 3,
       allocation_change = 20 / 3 - current_of pt n3, rank = 3, score = 0,
       reason = ''insufficient_history''\<rparr>]"
    using assms(1) by (simp add: proposed_allocations_def enumerate1_3 Let_def)
  have n: "normalize_allocations 200 (proposed_allocations pt 200 ?rk)
             = Inr (proposed_allocations pt 200 ?rk)"
    unfolding p by (simp add: normalize_allocations_def)
  have "allocations_of_rankings tr pt 200 ?rk
          = normalize_allocations 200 (proposed_allocations pt 200 ?rk)"
    unfolding allocations_of_rankings_def q by simp
  also note n
  also note p
  finally show ?thesis .
qed

text \<open>
  Claim C2 (as amended). With the ranked scores 0.6, 0.3 and 0, two closed trades for
  the third strategy, a ranking threshold of five trades and a total capital of 200,
  the third strategy qualifies despite its score of 0 and gets the minimum allocation
  20/3; the other two get 100 (the 50 percent cap) and 200/3. The sum, 520/3, is below
  200, so nothing is normalised.
\<close>

theorem rebalance_example:
  assumes "rank_strategies cfg tr pt now = Inr [(n1, 0.6, m1), (n2, 0.3, m2), (n3, 0, m3)]"
    and "total_trades m3 = 2"
    and "min_trades_for_ranking (perf_config tr) = 5"
  shows "\<exists>r1 r2 r3. calculate_allocations cfg tr pt 200 now = Inr [r1, r2, r3]
    \<and> a_strategy_name r3 = n3 \<and> score r3 = 0 \<and> reason r3 = ''insufficient_history''
    \<and> new_allocation r1 = 100 \<and> new_allocation r2 = 200 / 3 \<and> new_allocation r3 = 20 / 3
    \<and> sum_list (map new_allocation [r1, r2, r3]) = 520 / 3"
proof -
  have c: "calculate_allocations cfg tr pt 200 now
      = allocations_of_rankings tr pt 200 [(n1, 0.6, m1), (n2, 0.3, m2), (n3, 0, m3)]"
    unfolding calculate_allocations_def assms(1) by simp
  show ?thesis
    unfolding c rebalance_core[OF assms(2,3)] by simp
qed

lemma ex_rebalance_current:
  "current_of ex_rebalance ''A'' = 67" "current_of ex_rebalance ''B'' = 100"
  "current_of ex_rebalance ''C'' = 100"
  by (simp_all add: current_of_def get_portfolio_def ex_rebalance_def
        ex_winner_def ex_flat3_def ex_flat2_def portfolio_of_def)

lemma ex_rebalance_allocations:
  "calculate_allocations ex_weights ex_tracker ex_rebalance 200 0 = Inr ex_rebalance_results"
proof -
  have a: "total_trades ex_flat2_metrics = 2" by (simp add: ex_flat2_metrics_def)
  have b: "min_trades_for_ranking (perf_config ex_tracker) = 5"
    by (simp add: ex_tracker_def default_performance_def)
  have c: "calculate_allocations ex_weights ex_tracker ex_rebalance 200 0
      = allocations_of_rankings ex_tracker ex_rebalance 200
          [(''A'', 0.6, ex_winner_metrics ''A''), (''B'', 0.3, ex_flat3_metrics),
           (''C'', 0, ex_flat2_metrics)]"
    unfolding calculate_allocations_def ex_rebalance_rankings by simp
  show ?thesis
    unfolding c rebalance_core[OF a b] ex_rebalance_current ex_rebalance_results_def by simp
qed

theorem rebalance_example_witness:
  "rank_strategies ex_weights ex_tracker ex_rebalance 0 =
     Inr [(''A'', 0.6, ex_winner_metrics ''A''), (''B'', 0.3, ex_flat3_metrics),
          (''C'', 0, ex_flat2_metrics)]
   \<and> total_trades ex_flat2_metrics = 2
   \<and> min_trades_for_ranking (perf_config ex_tracker) = 5
   \<and> (\<exists>r1 r2 r3. calculate_allocations ex_weights ex_tracker ex_rebalance 200 0 = Inr [r1, r2, r3]
        \<and> a_strategy_name r3 = ''C'' \<and> score r3 = 0 \<and> reason r3 = ''insufficient_history''
        \<and> new_allocation r1 = 100 \<and> new_allocation r2 = 200 / 3 \<and> new_allocation r3 = 20 / 3
        \<and> sum_list (map new_allocation [r1, r2, r3]) = 520 / 3)"
proof -
  have a: "total_trades ex_flat2_metrics = 2" by (simp add: ex_flat2_metrics_def)
  have b: "min_trades_for_ranking (perf_config ex_tracker) = 5"
    by (simp add: ex_tracker_def default_performance_def)
  from rebalance_example[OF ex_rebalance_rankings a b] ex_rebalance_rankings a b
  show ?thesis by (intro conjI)
qed

text \<open>
  Claim C2 as stated fails on its own input: the allocations are 100, 200/3 and 20/3
  and their sum is 520/3, not 200.
\<close>

theorem rebalance_example_counterexample:
  "calculate_allocations ex_weights ex_tracker ex_rebalance 200 0 = Inr ex_rebalance_results
   \<and> map score ex_rebalance_results = [0.6, 0.3, 0]
   \<and> length (closed_positions ex_flat2) = 2
   \<and> sum_list (map new_allocation ex_rebalance_results) = 520 / 3
   \<and> sum_list (map new_allocation ex_rebalance_results) \<noteq> 200"
  by (simp add: ex_rebalance_allocations)
     (simp add: ex_rebalance_results_def ex_flat2_def portfolio_of_def)

section \<open>The strategy score\<close>








section \<open>Exit checks\<close>









end
